theory Spec2Isabelle
  imports Complex_Main
begin

section \<open>Numbers\<close>

text \<open>
  JavaScript numbers are IEEE doubles. The model keeps them as \<^typ>\<open>real\<close>s and states
  where it rounds. Rounding is modelled where it can change which branch the code takes:
  the subtraction in \<open>findClosestPressure\<close>, whose rounded results are compared to choose
  the level. Everywhere else a rounding changes a computed value only, and the arithmetic
  is exact. The values NaN and Infinity have no counterpart among the reals: a division
  returns \<open>None\<close> when its divisor is zero, and \<open>parseFloat\<close> of a form field is a
  \<^typ>\<open>real option\<close> whose \<open>None\<close> is NaN.
\<close>

text \<open>
  \<open>to_double x\<close> is the double nearest to \<open>x\<close>, ties going to the even significand: with
  \<open>2 ^ e \<le> \<bar>x\<bar> < 2 ^ (e + 1)\<close> the doubles around \<open>x\<close> are the multiples of \<open>2 ^ (e - 52)\<close>,
  and of \<open>2 ^ - 1074\<close> in the subnormal range. Overflow is left out: the difference of a
  finite double and a pressure level never exceeds the largest double after rounding.
\<close>

definition round_half_even :: "real \<Rightarrow> int" where
  "round_half_even y =
     (let f = \<lfloor>y\<rfloor>
      in if y - of_int f < 1 / 2 then f
         else if y - of_int f > 1 / 2 then f + 1
         else if even f then f else f + 1)"

definition ulp_exponent :: "real \<Rightarrow> int" where
  "ulp_exponent x = max (- 1074) (\<lfloor>log 2 \<bar>x\<bar>\<rfloor> - 52)"

definition to_double :: "real \<Rightarrow> real" where
  "to_double x =
     (if x = 0 then 0
      else of_int (round_half_even (x / 2 powi ulp_exponent x)) * 2 powi ulp_exponent x)"

definition js_divide :: "real \<Rightarrow> real \<Rightarrow> real option" where
  \<comment> \<open>\<open>a / b\<close>; with \<open>b = 0\<close> JavaScript yields NaN or an infinity, here \<open>None\<close>.\<close>
  "js_divide a b = (if b = 0 then None else Some (a / b))"

section \<open>The steam front end (script.js)\<close>

subsection \<open>Steam table\<close>

record curve =
  temperatures :: "real list"
  enthalpies :: "real list"

text \<open>
  \<open>steamTableData\<close> is an object literal with the integer keys 10, 20, 30, 50, 90.
  \<open>Object.keys\<close> lists integer keys in ascending order, which here is also the order of
  declaration, so the object is an association list in that order.
\<close>

definition steamTableData :: "(real \<times> curve) list" where
  "steamTableData =
    [(10, \<lparr>temperatures = [200, 250, 300, 350, 400, 450, 500, 550, 600],
           enthalpies = [2827.4, 2957.2, 3051.2, 3157.7, 3264.5, 3373.7, 3486.8, 3603.4, 3723.4]\<rparr>),
     (20, \<lparr>temperatures = [212, 250, 300, 350, 400, 450, 500, 550, 600],
           enthalpies = [2799.5, 2902.5, 3023.5, 3137.0, 3248.4, 3360.8, 3475.2, 3592.2, 3712.0]\<rparr>),
     (30, \<lparr>temperatures = [234, 250, 300, 350, 400, 450, 500, 550, 600],
           enthalpies = [2803.4, 2855.8, 2993.5, 3115.3, 3231.6, 3346.8, 3462.8, 3580.4, 3700.1]\<rparr>),
     (50, \<lparr>temperatures = [264, 300, 350, 400, 450, 500, 550, 600],
           enthalpies = [2794.3, 2924.5, 3064.2, 3196.7, 3317.2, 3436.7, 3556.8, 3678.2]\<rparr>),
     (90, \<lparr>temperatures = [303, 350, 400, 450, 500, 550, 600],
           enthalpies = [2724.7, 2957.2, 3138.3, 3279.6, 3410.3, 3486.0, 3612.8]\<rparr>)]"

subsection \<open>Interpolation\<close>

definition linearInterpolate :: "real \<Rightarrow> real \<Rightarrow> real \<Rightarrow> real \<Rightarrow> real \<Rightarrow> real option" where
  \<comment> \<open>\<open>None\<close>: the result is not a finite number, because a division by zero was evaluated.\<close>
  "linearInterpolate x x1 x2 y1 y2 =
     (if x1 = x2 then Some y1
      else case js_divide (x - x1) (x2 - x1) of
             None \<Rightarrow> None
           | Some q \<Rightarrow> Some (y1 + q * (y2 - y1)))"

subsection \<open>Nearest pressure level\<close>

text \<open>
  The \<open>for ... of\<close> loop of \<open>findClosestPressure\<close>; the loop state is \<open>(closest, minDiff)\<close>.
  \<open>Math.abs\<close> is exact; the subtraction under it is rounded.
\<close>

fun closest_loop :: "real \<Rightarrow> real list \<Rightarrow> real \<times> real \<Rightarrow> real \<times> real" where
  "closest_loop targetPressure [] (closest, minDiff) = (closest, minDiff)"
| "closest_loop targetPressure (pressure # rest) (closest, minDiff) =
     (let diff = \<bar>to_double (targetPressure - pressure)\<bar>
      in if diff < minDiff
         then closest_loop targetPressure rest (pressure, diff)
         else closest_loop targetPressure rest (closest, minDiff))"

definition availablePressures :: "real list" where
  "availablePressures = map fst steamTableData"

definition findClosestPressure :: "real \<Rightarrow> real" where
  \<comment> \<open>\<open>availablePressures[0]\<close> is the head: the table is a non-empty constant.\<close>
  "findClosestPressure targetPressure =
     (let closest = hd availablePressures;
          minDiff = \<bar>to_double (targetPressure - closest)\<bar>
      in fst (closest_loop targetPressure availablePressures (closest, minDiff)))"

subsection \<open>Estimation\<close>

text \<open>How a result was obtained: the tag \<open>exact\<close> or \<open>interpolated\<close> of the source.\<close>

datatype estimate_method = Exact | Interpolated

record bracket =
  T1 :: real
  T2 :: real
  h1 :: real
  h2 :: real

record estimate =
  enthalpy :: real
  pressureUsed :: real
  est_method :: estimate_method
  interpolationData :: "bracket option"

text \<open>
  \<open>OutsideRange t p lo hi\<close> is the \<open>Error\<close> thrown by the range check; its message is the
  template \<open>Temperature t is outside the range for p (lo - hi)\<close>, kept here as the four
  values the template prints. \<open>TypeError\<close> is what reading \<open>data.temperatures\<close> throws when
  the table has no entry for the chosen level. \<open>NotFinite\<close> is not thrown by the source: it
  stands for a returned estimate whose enthalpy is NaN or infinite, which a \<^typ>\<open>real\<close>
  cannot hold.
\<close>

datatype error = OutsideRange real real real real | TypeError | NotFinite

text \<open>
  The \<open>while\<close> loop of \<open>calculateEnthalpy\<close>. The source's test \<open>i < temps.length - 1\<close> is
  over the integers; on naturals it is written \<open>i + 1 < length temps\<close>, which avoids the
  truncated subtraction at length zero.
\<close>

function bracket_loop :: "real list \<Rightarrow> real \<Rightarrow> nat \<Rightarrow> nat" where
  "bracket_loop temps temperature i =
     (if i + 1 < length temps \<and> temps ! (i + 1) \<le> temperature
      then bracket_loop temps temperature (i + 1)
      else i)"
  by pat_completeness auto
termination
  by (relation "measure (\<lambda>(temps, temperature, i). length temps - i)") auto

declare bracket_loop.simps [simp del]

definition calculateEnthalpy :: "real \<Rightarrow> real \<Rightarrow> error + estimate" where
  "calculateEnthalpy temperature pressure =
     (let closestPressure = findClosestPressure pressure
      in case map_of steamTableData closestPressure of
           None \<Rightarrow> Inl TypeError
         | Some data \<Rightarrow>
             (let temps = temperatures data;
                  enths = enthalpies data
              in if temperature < temps ! 0 \<or> temperature > temps ! (length temps - 1)
                 then Inl (OutsideRange temperature closestPressure
                             (temps ! 0) (temps ! (length temps - 1)))
                 else
                   (let i = bracket_loop temps temperature 0
                    in if temps ! i = temperature
                       then Inr \<lparr>enthalpy = enths ! i, pressureUsed = closestPressure,
                                 est_method = Exact, interpolationData = None\<rparr>
                       else
                         (case linearInterpolate temperature (temps ! i) (temps ! (i + 1))
                                 (enths ! i) (enths ! (i + 1)) of
                            None \<Rightarrow> Inl NotFinite
                          | Some h \<Rightarrow>
                              Inr \<lparr>enthalpy = h, pressureUsed = closestPressure,
                                   est_method = Interpolated,
                                   interpolationData =
                                     Some \<lparr>T1 = temps ! i, T2 = temps ! (i + 1),
                                           h1 = enths ! i, h2 = enths ! (i + 1)\<rparr>\<rparr>))))"

text \<open>
  The shape the spec asks of a curve: at least one sample, as many enthalpies as
  temperatures, temperatures strictly increasing.
\<close>

definition curve_ok :: "curve \<Rightarrow> bool" where
  "curve_ok data \<longleftrightarrow>
     temperatures data \<noteq> [] \<and>
     length (enthalpies data) = length (temperatures data) \<and>
     sorted_wrt (<) (temperatures data)"

subsection \<open>Page state\<close>

text \<open>
  The mutable state of script.js: the variables \<open>dataPoints\<close> and \<open>enthalpyChart\<close>, and the
  parts of the document its functions write. \<open>Fixed2 x\<close> is the text \<open>x.toFixed(2)\<close>, \<open>Dash\<close>
  the text \<open>-\<close>, \<open>NaN_text\<close> the text \<open>NaN\<close>. A chart is kept as the series it plots (its
  labels are the positions in the series); colours are left out. The timer that hides a
  notification again is not modelled.
\<close>

datatype stat_text = Dash | Fixed2 real | NaN_text

record dataPoint =
  dp_temperature :: real
  dp_pressure :: real
  dp_pressureUsed :: real
  dp_enthalpy :: real
  dp_method :: estimate_method

datatype kind = Success | ErrorKind | Info

text \<open>
  The messages script.js shows: the validation errors joined, the success text with the
  enthalpy and, when it differs from the request, the pressure used, the message of a caught
  error, and the reset text.
\<close>

datatype message =
    ValidationErrors "string list"
  | Calculated real "real option"
  | Caught error
  | ResetDone

record page =
  dataPoints :: "dataPoint list"
  enthalpyChart :: "real list option"
  currentEnthalpy_text :: stat_text
  dataPoints_text :: nat
  avgEnthalpy_text :: stat_text
  tempError_shown :: bool
  pressError_shown :: bool
  noDataMessage_shown :: bool
  canvas_shown :: bool
  notification_shown :: "(message \<times> kind) option"

definition validateInputs :: "real option \<Rightarrow> real option \<Rightarrow> page \<Rightarrow> string list \<times> page" where
  \<comment> \<open>\<open>isNaN(temp) || temp < 0\<close>, with \<open>None\<close> for NaN.\<close>
  "validateInputs temp press s =
     (let tempBad = (case temp of None \<Rightarrow> True | Some x \<Rightarrow> x < 0);
          pressBad = (case press of None \<Rightarrow> True | Some x \<Rightarrow> x < 0);
          errors = (if tempBad then [''Temperature must be a positive number''] else []) @
                   (if pressBad then [''Pressure must be a positive number''] else [])
      in (errors, s\<lparr>tempError_shown := tempBad, pressError_shown := pressBad\<rparr>))"

definition showNotification :: "message \<Rightarrow> kind \<Rightarrow> page \<Rightarrow> page" where
  "showNotification msg k s = s\<lparr>notification_shown := Some (msg, k)\<rparr>"

definition updateStats :: "page \<Rightarrow> page" where
  "updateStats s =
     (let s1 = s\<lparr>dataPoints_text := length (dataPoints s)\<rparr>
      in if length (dataPoints s1) > 0
         then s1\<lparr>avgEnthalpy_text :=
                   Fixed2 (foldl (\<lambda>sum point. sum + dp_enthalpy point) 0 (dataPoints s1)
                           / real (length (dataPoints s1)))\<rparr>
         else s1\<lparr>avgEnthalpy_text := Dash\<rparr>)"

definition initializeChart :: "page \<Rightarrow> page" where
  \<comment> \<open>With no data the function returns early and leaves \<open>enthalpyChart\<close> as it was.\<close>
  "initializeChart s =
     (if length (dataPoints s) = 0
      then s\<lparr>noDataMessage_shown := True, canvas_shown := False\<rparr>
      else s\<lparr>noDataMessage_shown := False, canvas_shown := True,
              enthalpyChart := Some (map dp_enthalpy (dataPoints s))\<rparr>)"

definition resetForm :: "page \<Rightarrow> page" where
  "resetForm s =
     showNotification ResetDone Info
       (initializeChart
         (updateStats
           (s\<lparr>currentEnthalpy_text := Dash, tempError_shown := False,
              pressError_shown := False, dataPoints := []\<rparr>)))"

text \<open>
  The submit handler. Its arguments are the two \<open>parseFloat\<close> results. After a validation
  without errors both are numbers, so the last branch of the inner \<open>case\<close> is never taken.
  The \<open>catch\<close> branch takes every \<open>Inl\<close>; for \<open>NotFinite\<close>, which the source would return
  rather than throw, that choice is immaterial, since \<open>calculateEnthalpy\<close> never yields it.
\<close>

definition submit :: "real option \<Rightarrow> real option \<Rightarrow> page \<Rightarrow> page" where
  "submit temperature pressure s =
     (case validateInputs temperature pressure s of
        (errors, s1) \<Rightarrow>
          if length errors > 0
          then showNotification (ValidationErrors errors) ErrorKind s1
          else
            (case (temperature, pressure) of
               (Some t, Some p) \<Rightarrow>
                 (case calculateEnthalpy t p of
                    Inr result \<Rightarrow>
                      (let s2 = s1\<lparr>currentEnthalpy_text := Fixed2 (enthalpy result)\<rparr>;
                           s3 = s2\<lparr>dataPoints := dataPoints s2 @
                                  [\<lparr>dp_temperature = t, dp_pressure = p,
                                    dp_pressureUsed = pressureUsed result,
                                    dp_enthalpy = enthalpy result,
                                    dp_method = est_method result\<rparr>]\<rparr>;
                           s4 = initializeChart (updateStats s3)
                       in showNotification
                            (Calculated (enthalpy result)
                               (if pressureUsed result \<noteq> p then Some (pressureUsed result)
                                else None))
                            Success s4)
                  | Inl err \<Rightarrow> showNotification (Caught err) ErrorKind s1)
             | _ \<Rightarrow> s1))"

fun submit_all :: "(real option \<times> real option) list \<Rightarrow> page \<Rightarrow> page" where
  \<comment> \<open>A sequence of submissions, one after the other.\<close>
  "submit_all [] s = s"
| "submit_all ((temperature, pressure) # rest) s = submit_all rest (submit temperature pressure s)"

definition loaded_page :: page where
  \<comment> \<open>Lines 32 and 33 initialise the variables; the panel is as the load handler leaves it.\<close>
  "loaded_page =
     \<lparr>dataPoints = [], enthalpyChart = None, currentEnthalpy_text = Dash,
      dataPoints_text = 0, avgEnthalpy_text = Dash, tempError_shown = False,
      pressError_shown = False, noDataMessage_shown = True, canvas_shown = False,
      notification_shown = None\<rparr>"

section \<open>The air front end (the second script)\<close>

definition maxDataPoints :: nat where
  "maxDataPoints = 50"

definition cpDryAir :: "real \<Rightarrow> real" where
  "cpDryAir T = (let a = 1003.5; b = 0.1; c = - 0.00002 in a + b * T + c * T * T)"

definition calculateEnthalpy_air :: "real \<Rightarrow> real" where
  "calculateEnthalpy_air T = cpDryAir T * T"

datatype air_message = EnthalpyShown real | FixInputErrors | FormAndDataReset

text \<open>
  The four parallel arrays, the chart (its labels and its series) and the elements the
  script writes. A time label comes from the clock and is an argument of the model.
\<close>

record air_page =
  enthalpyData :: "real list"
  temperatureDataPoints :: "real list"
  pressureDataPoints :: "real list"
  timeLabels :: "string list"
  chart :: "(string list \<times> real list) option"
  currentEnthalpyEl :: stat_text
  dataPointsEl :: nat
  avgEnthalpyEl :: stat_text
  tempError :: bool
  pressError :: bool
  chartCanvas :: bool
  noDataMessage :: bool
  notification :: "(air_message \<times> kind) option"

definition updateStats_air :: "air_page \<Rightarrow> air_page" where
  \<comment> \<open>On an empty array \<open>latest\<close> is undefined and \<open>avg\<close> is 0/0: both texts read NaN.\<close>
  "updateStats_air s =
     (let n = length (enthalpyData s)
      in s\<lparr>currentEnthalpyEl :=
             (if n = 0 then NaN_text else Fixed2 (enthalpyData s ! (n - 1) / 1000)),
           avgEnthalpyEl :=
             (case js_divide (foldl (\<lambda>a b. a + b) 0 (enthalpyData s)) (real n) of
                None \<Rightarrow> NaN_text
              | Some avg \<Rightarrow> Fixed2 (avg / 1000)),
           dataPointsEl := n\<rparr>)"

text \<open>
  \<open>shift()\<close> removes the first element and does nothing on an empty array, as \<open>tl\<close> does.
  The first call hands the arrays themselves to the new chart and later calls give it
  copies; either way the chart shows the arrays as they are when the call ends.
\<close>

definition updateChart :: "real \<Rightarrow> real \<Rightarrow> string \<Rightarrow> air_page \<Rightarrow> air_page" where
  "updateChart temp pressure timestamp s =
     (let enthalpy = calculateEnthalpy_air temp;
          s1 = s\<lparr>enthalpyData := enthalpyData s @ [enthalpy],
                 temperatureDataPoints := temperatureDataPoints s @ [temp],
                 pressureDataPoints := pressureDataPoints s @ [pressure],
                 timeLabels := timeLabels s @ [timestamp]\<rparr>;
          s2 = (if length (enthalpyData s1) > maxDataPoints
                then s1\<lparr>enthalpyData := tl (enthalpyData s1),
                        temperatureDataPoints := tl (temperatureDataPoints s1),
                        pressureDataPoints := tl (pressureDataPoints s1),
                        timeLabels := tl (timeLabels s1)\<rparr>
                else s1);
          s3 = s2\<lparr>chartCanvas := True, noDataMessage := False\<rparr>;
          s4 = s3\<lparr>chart := Some (timeLabels s3, enthalpyData s3)\<rparr>
      in updateStats_air s4)"

definition validateInput :: "real option \<Rightarrow> bool" where
  "validateInput v = (case v of None \<Rightarrow> False | Some x \<Rightarrow> \<not> x \<le> 0)"

definition showNotification_air :: "air_message \<Rightarrow> kind \<Rightarrow> air_page \<Rightarrow> air_page" where
  "showNotification_air msg k s = s\<lparr>notification := Some (msg, k)\<rparr>"

definition submit_air :: "real option \<Rightarrow> real option \<Rightarrow> string \<Rightarrow> air_page \<Rightarrow> air_page" where
  \<comment> \<open>Valid inputs are numbers, so the last branch of the \<open>case\<close> is never taken.\<close>
  "submit_air temp press timestamp s =
     (let tempValid = validateInput temp;
          pressValid = validateInput press;
          s1 = s\<lparr>tempError := \<not> tempValid, pressError := \<not> pressValid\<rparr>
      in if tempValid \<and> pressValid
         then (case (temp, press) of
                 (Some t, Some p) \<Rightarrow>
                   showNotification_air (EnthalpyShown (calculateEnthalpy_air t)) Success
                     (updateChart t p timestamp s1)
               | _ \<Rightarrow> s1)
         else showNotification_air FixInputErrors ErrorKind s1)"

definition resetForm_air :: "air_page \<Rightarrow> air_page" where
  "resetForm_air s =
     showNotification_air FormAndDataReset Success
       (s\<lparr>tempError := False, pressError := False,
          enthalpyData := [], temperatureDataPoints := [], pressureDataPoints := [],
          timeLabels := [], chart := None, chartCanvas := False, noDataMessage := True,
          currentEnthalpyEl := Dash, avgEnthalpyEl := Dash, dataPointsEl := 0\<rparr>)"

fun updateChart_all :: "(real \<times> real \<times> string) list \<Rightarrow> air_page \<Rightarrow> air_page" where
  \<comment> \<open>A sequence of recordings, one after the other.\<close>
  "updateChart_all [] s = s"
| "updateChart_all ((temp, pressure, timestamp) # rest) s =
     updateChart_all rest (updateChart temp pressure timestamp s)"

definition loaded_air_page :: air_page where
  \<comment> \<open>Lines 5 to 9 initialise the variables; the panel is as \<open>resetForm\<close> leaves it.\<close>
  "loaded_air_page =
     \<lparr>enthalpyData = [], temperatureDataPoints = [], pressureDataPoints = [], timeLabels = [],
      chart = None, currentEnthalpyEl = Dash, dataPointsEl = 0, avgEnthalpyEl = Dash,
      tempError = False, pressError = False, chartCanvas = False, noDataMessage = True,
      notification = None\<rparr>"

section \<open>Rounding\<close>

lemma round_half_even_int: "round_half_even (of_int n) = n"
  by (simp add: round_half_even_def)



lemma powi_minus_nat:
  assumes "0 \<le> q"
  shows "(2::real) powi (- q) = 1 / 2 ^ nat q"
proof -
  have "(2::real) powi q = 2 ^ nat q"
    using assms by (simp only: power_int_def if_True)
  then have "(2::real) powi (- q) = inverse (2 ^ nat q)"
    by (simp only: power_int_minus)
  then show ?thesis by (simp only: inverse_eq_divide)
qed


lemma to_double_int:
  assumes "\<bar>n\<bar> < 2 ^ 53"
  shows "to_double (of_int n) = of_int n"
proof (cases "n = 0")
  case True
  then show ?thesis by (simp add: to_double_def)
next
  case False
  let ?x = "real_of_int n"
  let ?e = "\<lfloor>log 2 \<bar>?x\<bar>\<rfloor>"
  have "1 \<le> \<bar>n\<bar>" using False by simp
  then have "real_of_int 1 \<le> real_of_int \<bar>n\<bar>" by (simp only: of_int_le_iff)
  then have one: "1 \<le> \<bar>?x\<bar>" by simp
  have "real_of_int \<bar>n\<bar> < real_of_int (2 ^ 53)" using assms by (simp only: of_int_less_iff)
  then have lt: "\<bar>?x\<bar> < 2 ^ 53" by simp
  have "0 \<le> log 2 \<bar>?x\<bar>" using one by simp
  then have e0: "0 \<le> ?e" by simp
  have pw: "(2::real) powr 53 = 2 ^ 53"
    by (rule powr_numeral) simp
  have below: "\<bar>?x\<bar> < 2 powr 53"
    using lt by (simp only: pw)
  have pos: "0 < \<bar>?x\<bar>" using one by linarith
  have "log 2 \<bar>?x\<bar> < 53 \<longleftrightarrow> \<bar>?x\<bar> < 2 powr 53"
    using pos by (intro log_less_iff) simp_all
  then have "log 2 \<bar>?x\<bar> < 53"
    using below by blast
  then have e52: "?e \<le> 52" by linarith
  define q where "q = 52 - ?e"
  have q: "0 \<le> q" "q \<le> 52" using e0 e52 by (simp_all add: q_def)
  have u: "ulp_exponent ?x = - q"
    using e0 e52 unfolding ulp_exponent_def q_def by linarith
  have p: "(2::real) powi (- q) = 1 / 2 ^ nat q"
    using q(1) by (rule powi_minus_nat)
  have "?x / (1 / 2 ^ nat q) = of_int (n * 2 ^ nat q)"
    by simp
  then have r: "round_half_even (?x / (1 / 2 ^ nat q)) = n * 2 ^ nat q"
    by (simp only: round_half_even_int)
  have "to_double ?x = of_int (round_half_even (?x / 2 powi (- q))) * 2 powi (- q)"
    using False by (simp add: to_double_def u del: power_int_minus)
  also have "\<dots> = of_int (n * 2 ^ nat q) * (1 / 2 ^ nat q)"
    by (simp only: p r)
  also have "\<dots> = ?x" by simp
  finally show ?thesis .
qed


lemma to_double_numeral [simp]:
  "\<bar>numeral k :: int\<bar> < 2 ^ 53 \<Longrightarrow> to_double (numeral k) = numeral k"
  "\<bar>numeral k :: int\<bar> < 2 ^ 53 \<Longrightarrow> to_double (- numeral k) = - numeral k"
  using to_double_int [of "numeral k"] to_double_int [of "- numeral k"]
  by simp_all

lemma to_double_0 [simp]: "to_double 0 = 0"
  by (simp add: to_double_def)


section \<open>The loops\<close>

lemma closest_loop_spec:
  "(closest_loop t ps (c, m) = (c, m) \<and> (\<forall>j<length ps. m \<le> \<bar>to_double (t - ps ! j)\<bar>)) \<or>
   (\<exists>k<length ps. closest_loop t ps (c, m) = (ps ! k, \<bar>to_double (t - ps ! k)\<bar>) \<and> \<bar>to_double (t - ps ! k)\<bar> < m \<and>
       (\<forall>j<length ps. \<bar>to_double (t - ps ! k)\<bar> \<le> \<bar>to_double (t - ps ! j)\<bar>) \<and>
       (\<forall>j<k. \<bar>to_double (t - ps ! k)\<bar> < \<bar>to_double (t - ps ! j)\<bar>))"
proof (induction ps arbitrary: c m)
  case Nil
  show ?case by simp
next
  case (Cons p rest)
  let ?d = "\<bar>to_double (t - p)\<bar>"
  show ?case
  proof (cases "?d < m")
    case True
    have step: "closest_loop t (p # rest) (c, m) = closest_loop t rest (p, ?d)"
      using True by simp
    from Cons.IH [of p ?d] show ?thesis
    proof (elim disjE exE conjE)
      assume same: "closest_loop t rest (p, ?d) = (p, ?d)"
        and ge: "\<forall>j<length rest. ?d \<le> \<bar>to_double (t - rest ! j)\<bar>"
      have "\<forall>j<length (p # rest). ?d \<le> \<bar>to_double (t - (p # rest) ! j)\<bar>"
        using ge by (auto simp: nth_Cons split: nat.splits)
      then have "0 < length (p # rest) \<and> closest_loop t (p # rest) (c, m) = ((p # rest) ! 0, \<bar>to_double (t - (p # rest) ! 0)\<bar>) \<and>
          \<bar>to_double (t - (p # rest) ! 0)\<bar> < m \<and> (\<forall>j<length (p # rest). \<bar>to_double (t - (p # rest) ! 0)\<bar> \<le> \<bar>to_double (t - (p # rest) ! j)\<bar>) \<and>
          (\<forall>j<0. \<bar>to_double (t - (p # rest) ! 0)\<bar> < \<bar>to_double (t - (p # rest) ! j)\<bar>)"
        using step same True by simp
      then show ?thesis by blast
    next
      fix k
      assume k: "k < length rest"
        and res: "closest_loop t rest (p, ?d) = (rest ! k, \<bar>to_double (t - rest ! k)\<bar>)"
        and lt: "\<bar>to_double (t - rest ! k)\<bar> < ?d"
        and mn: "\<forall>j<length rest. \<bar>to_double (t - rest ! k)\<bar> \<le> \<bar>to_double (t - rest ! j)\<bar>"
        and fst: "\<forall>j<k. \<bar>to_double (t - rest ! k)\<bar> < \<bar>to_double (t - rest ! j)\<bar>"
      have a: "\<forall>j<length (p # rest). \<bar>to_double (t - rest ! k)\<bar> \<le> \<bar>to_double (t - (p # rest) ! j)\<bar>"
        using mn lt by (auto simp: nth_Cons split: nat.splits)
      have b: "\<forall>j<Suc k. \<bar>to_double (t - rest ! k)\<bar> < \<bar>to_double (t - (p # rest) ! j)\<bar>"
        using fst lt by (auto simp: nth_Cons split: nat.splits)
      have "Suc k < length (p # rest) \<and>
          closest_loop t (p # rest) (c, m) = ((p # rest) ! Suc k, \<bar>to_double (t - (p # rest) ! Suc k)\<bar>) \<and>
          \<bar>to_double (t - (p # rest) ! Suc k)\<bar> < m \<and>
          (\<forall>j<length (p # rest). \<bar>to_double (t - (p # rest) ! Suc k)\<bar> \<le> \<bar>to_double (t - (p # rest) ! j)\<bar>) \<and>
          (\<forall>j<Suc k. \<bar>to_double (t - (p # rest) ! Suc k)\<bar> < \<bar>to_double (t - (p # rest) ! j)\<bar>)"
        using k step res lt True a b by simp
      then show ?thesis by blast
    qed
  next
    case False
    have step: "closest_loop t (p # rest) (c, m) = closest_loop t rest (c, m)"
      using False by simp
    from Cons.IH [of c m] show ?thesis
    proof (elim disjE exE conjE)
      assume same: "closest_loop t rest (c, m) = (c, m)"
        and ge: "\<forall>j<length rest. m \<le> \<bar>to_double (t - rest ! j)\<bar>"
      have "\<forall>j<length (p # rest). m \<le> \<bar>to_double (t - (p # rest) ! j)\<bar>"
        using ge False by (auto simp: nth_Cons split: nat.splits)
      then show ?thesis using step same by simp
    next
      fix k
      assume k: "k < length rest"
        and res: "closest_loop t rest (c, m) = (rest ! k, \<bar>to_double (t - rest ! k)\<bar>)"
        and lt: "\<bar>to_double (t - rest ! k)\<bar> < m"
        and mn: "\<forall>j<length rest. \<bar>to_double (t - rest ! k)\<bar> \<le> \<bar>to_double (t - rest ! j)\<bar>"
        and fst: "\<forall>j<k. \<bar>to_double (t - rest ! k)\<bar> < \<bar>to_double (t - rest ! j)\<bar>"
      have a: "\<forall>j<length (p # rest). \<bar>to_double (t - rest ! k)\<bar> \<le> \<bar>to_double (t - (p # rest) ! j)\<bar>"
        using mn lt False by (auto simp: nth_Cons split: nat.splits)
      have b: "\<forall>j<Suc k. \<bar>to_double (t - rest ! k)\<bar> < \<bar>to_double (t - (p # rest) ! j)\<bar>"
        using fst lt False by (auto simp: nth_Cons split: nat.splits)
      have "Suc k < length (p # rest) \<and>
          closest_loop t (p # rest) (c, m) = ((p # rest) ! Suc k, \<bar>to_double (t - (p # rest) ! Suc k)\<bar>) \<and>
          \<bar>to_double (t - (p # rest) ! Suc k)\<bar> < m \<and>
          (\<forall>j<length (p # rest). \<bar>to_double (t - (p # rest) ! Suc k)\<bar> \<le> \<bar>to_double (t - (p # rest) ! j)\<bar>) \<and>
          (\<forall>j<Suc k. \<bar>to_double (t - (p # rest) ! Suc k)\<bar> < \<bar>to_double (t - (p # rest) ! j)\<bar>)"
        using k step res lt a b by simp
      then show ?thesis by blast
    qed
  qed
qed

lemma findClosestPressure_first_min:
  "\<exists>k<length availablePressures.
     findClosestPressure p = availablePressures ! k \<and>
     (\<forall>j<length availablePressures. \<bar>to_double (p - availablePressures ! k)\<bar> \<le> \<bar>to_double (p - availablePressures ! j)\<bar>) \<and>
     (\<forall>j<k. \<bar>to_double (p - availablePressures ! k)\<bar> < \<bar>to_double (p - availablePressures ! j)\<bar>)"
proof -
  let ?ps = availablePressures
  have ne: "?ps \<noteq> []" by (simp add: availablePressures_def steamTableData_def)
  then have hd0: "hd ?ps = ?ps ! 0" and len: "0 < length ?ps"
    by (simp_all add: hd_conv_nth)
  have fcp: "findClosestPressure p = fst (closest_loop p ?ps (?ps ! 0, \<bar>to_double (p - ?ps ! 0)\<bar>))"
    by (simp add: findClosestPressure_def Let_def hd0)
  from closest_loop_spec [of p ?ps "?ps ! 0" "\<bar>to_double (p - ?ps ! 0)\<bar>"] show ?thesis
  proof (elim disjE exE conjE)
    assume "closest_loop p ?ps (?ps ! 0, \<bar>to_double (p - ?ps ! 0)\<bar>) = (?ps ! 0, \<bar>to_double (p - ?ps ! 0)\<bar>)"
      and "\<forall>j<length ?ps. \<bar>to_double (p - ?ps ! 0)\<bar> \<le> \<bar>to_double (p - ?ps ! j)\<bar>"
    then have "0 < length ?ps \<and> findClosestPressure p = ?ps ! 0 \<and>
        (\<forall>j<length ?ps. \<bar>to_double (p - ?ps ! 0)\<bar> \<le> \<bar>to_double (p - ?ps ! j)\<bar>) \<and> (\<forall>j<0. \<bar>to_double (p - ?ps ! 0)\<bar> < \<bar>to_double (p - ?ps ! j)\<bar>)"
      using fcp len by simp
    then show ?thesis by blast
  next
    fix k
    assume "k < length ?ps"
      and "closest_loop p ?ps (?ps ! 0, \<bar>to_double (p - ?ps ! 0)\<bar>) = (?ps ! k, \<bar>to_double (p - ?ps ! k)\<bar>)"
      and "\<forall>j<length ?ps. \<bar>to_double (p - ?ps ! k)\<bar> \<le> \<bar>to_double (p - ?ps ! j)\<bar>"
      and "\<forall>j<k. \<bar>to_double (p - ?ps ! k)\<bar> < \<bar>to_double (p - ?ps ! j)\<bar>"
    then have "k < length ?ps \<and> findClosestPressure p = ?ps ! k \<and>
        (\<forall>j<length ?ps. \<bar>to_double (p - ?ps ! k)\<bar> \<le> \<bar>to_double (p - ?ps ! j)\<bar>) \<and> (\<forall>j<k. \<bar>to_double (p - ?ps ! k)\<bar> < \<bar>to_double (p - ?ps ! j)\<bar>)"
      using fcp by simp
    then show ?thesis by blast
  qed
qed

lemma findClosestPressure_level: "findClosestPressure p \<in> set availablePressures"
  using findClosestPressure_first_min [of p] by (metis nth_mem)

lemma bracket_loop_ge: "i \<le> bracket_loop temps t i"
proof (induction temps t i rule: bracket_loop.induct)
  case (1 temps t i)
  show ?case using 1 by (subst bracket_loop.simps) (auto split: if_splits)
qed

lemma bracket_loop_lt: "i < length temps \<Longrightarrow> bracket_loop temps t i < length temps"
proof (induction temps t i rule: bracket_loop.induct)
  case (1 temps t i)
  show ?case using 1 by (subst bracket_loop.simps) (auto split: if_splits)
qed

lemma bracket_loop_below: "temps ! i \<le> t \<Longrightarrow> temps ! bracket_loop temps t i \<le> t"
proof (induction temps t i rule: bracket_loop.induct)
  case (1 temps t i)
  show ?case using 1 by (subst bracket_loop.simps) (auto split: if_splits)
qed

lemma bracket_loop_above:
  "bracket_loop temps t i + 1 < length temps \<Longrightarrow> t < temps ! (bracket_loop temps t i + 1)"
proof (induction temps t i rule: bracket_loop.induct)
  case (1 temps t i)
  show ?case
  proof (cases "i + 1 < length temps \<and> temps ! (i + 1) \<le> t")
    case True
    then have eq: "bracket_loop temps t i = bracket_loop temps t (i + 1)"
      by (subst bracket_loop.simps) simp
    show ?thesis using 1 True eq by simp
  next
    case False
    then have eq: "bracket_loop temps t i = i"
      by (subst bracket_loop.simps) auto
    show ?thesis using 1(2) False eq by auto
  qed
qed

lemma bracket_loop_unique:
  "sorted_wrt (<) temps \<Longrightarrow> i \<le> j \<Longrightarrow> j < length temps \<Longrightarrow> temps ! j \<le> t \<Longrightarrow>
   (j + 1 < length temps \<longrightarrow> t < temps ! (j + 1)) \<Longrightarrow> bracket_loop temps t i = j"
proof (induction temps t i rule: bracket_loop.induct)
  case (1 temps t i)
  show ?case
  proof (cases "i = j")
    case True
    then show ?thesis using 1(5,6) by (subst bracket_loop.simps) auto
  next
    case False
    then have lt: "i + 1 \<le> j" using 1(3) by simp
    have "temps ! (i + 1) \<le> temps ! j"
    proof (cases "i + 1 = j")
      case True then show ?thesis by simp
    next
      case False
      then have "i + 1 < j" using lt by simp
      then show ?thesis using 1(2,4) by (simp add: sorted_wrt_nth_less less_imp_le)
    qed
    then have c: "i + 1 < length temps \<and> temps ! (i + 1) \<le> t"
      using lt 1(4,5) by simp
    then have eq: "bracket_loop temps t i = bracket_loop temps t (i + 1)"
      by (subst bracket_loop.simps) simp
    show ?thesis using 1(1) [OF c 1(2) lt 1(4) 1(5) 1(6)] eq by simp
  qed
qed

section \<open>The table and the estimate\<close>

lemma availablePressures_eq: "availablePressures = [10, 20, 30, 50, 90]"
  by (simp add: availablePressures_def steamTableData_def)

lemma table_curve_ok: "map_of steamTableData P = Some data \<Longrightarrow> curve_ok data"
  by (auto simp: steamTableData_def curve_ok_def split: if_splits)

lemma selected_curve_exists: "\<exists>data. map_of steamTableData (findClosestPressure p) = Some data"
proof -
  have "findClosestPressure p \<in> {10, 20, 30, 50, 90}"
    using findClosestPressure_level [of p] by (simp add: availablePressures_eq)
  then show ?thesis
    by (auto simp: steamTableData_def)
qed

lemma calculateEnthalpy_on:
  assumes "map_of steamTableData (findClosestPressure p) = Some data"
  shows "calculateEnthalpy t p =
     (let temps = temperatures data; enths = enthalpies data
      in if t < temps ! 0 \<or> t > temps ! (length temps - 1)
         then Inl (OutsideRange t (findClosestPressure p) (temps ! 0) (temps ! (length temps - 1)))
         else
           (let i = bracket_loop temps t 0
            in if temps ! i = t
               then Inr \<lparr>enthalpy = enths ! i, pressureUsed = findClosestPressure p,
                         est_method = Exact, interpolationData = None\<rparr>
               else
                 (case linearInterpolate t (temps ! i) (temps ! (i + 1)) (enths ! i) (enths ! (i + 1)) of
                    None \<Rightarrow> Inl NotFinite
                  | Some h \<Rightarrow>
                      Inr \<lparr>enthalpy = h, pressureUsed = findClosestPressure p,
                           est_method = Interpolated,
                           interpolationData =
                             Some \<lparr>T1 = temps ! i, T2 = temps ! (i + 1),
                                   h1 = enths ! i, h2 = enths ! (i + 1)\<rparr>\<rparr>)))"
  using assms by (simp add: calculateEnthalpy_def Let_def)

lemma linearInterpolate_value:
  "linearInterpolate x x1 x2 y1 y2 =
     Some (if x1 = x2 then y1 else y1 + ((x - x1) / (x2 - x1)) * (y2 - y1))"
  by (simp add: linearInterpolate_def js_divide_def)

lemma in_range_cases:
  assumes sel: "map_of steamTableData (findClosestPressure p) = Some data"
    and lo: "temperatures data ! 0 \<le> t"
    and hi: "t \<le> temperatures data ! (length (temperatures data) - 1)"
  defines "temps \<equiv> temperatures data" and "enths \<equiv> enthalpies data"
  defines "i \<equiv> bracket_loop temps t 0"
  shows "i < length temps \<and> temps ! i \<le> t \<and>
     (if temps ! i = t
      then calculateEnthalpy t p =
             Inr \<lparr>enthalpy = enths ! i, pressureUsed = findClosestPressure p,
                  est_method = Exact, interpolationData = None\<rparr>
      else i + 1 < length temps \<and> t < temps ! (i + 1) \<and>
           calculateEnthalpy t p =
             Inr \<lparr>enthalpy = enths ! i + ((t - temps ! i) / (temps ! (i + 1) - temps ! i)) * (enths ! (i + 1) - enths ! i),
                  pressureUsed = findClosestPressure p, est_method = Interpolated,
                  interpolationData = Some \<lparr>T1 = temps ! i, T2 = temps ! (i + 1),
                                            h1 = enths ! i, h2 = enths ! (i + 1)\<rparr>\<rparr>)"
proof -
  have ok: "curve_ok data" using sel by (rule table_curve_ok)
  then have ne: "0 < length temps" by (simp add: curve_ok_def temps_def)
  have il: "i < length temps" unfolding i_def using ne by (rule bracket_loop_lt)
  have below: "temps ! i \<le> t" unfolding i_def using lo by (simp add: temps_def bracket_loop_below)
  have inr: "\<not> (t < temps ! 0 \<or> t > temps ! (length temps - 1))"
    using lo hi by (simp add: temps_def)
  show ?thesis
  proof (cases "temps ! i = t")
    case True
    then show ?thesis
      using il below inr calculateEnthalpy_on [OF sel, of t]
      by (simp add: Let_def temps_def enths_def i_def)
  next
    case False
    have nxt: "i + 1 < length temps"
    proof (rule ccontr)
      assume "\<not> i + 1 < length temps"
      then have "i = length temps - 1" using il by simp
      then have "t \<le> temps ! i" using hi by (simp add: temps_def)
      then show False using below False by simp
    qed
    then have above: "t < temps ! (i + 1)"
      unfolding i_def by (rule bracket_loop_above)
    have ne12: "temps ! i \<noteq> temps ! (i + 1)" using below above by simp
    show ?thesis
      using False il below nxt above ne12 inr calculateEnthalpy_on [OF sel, of t]
      by (simp add: Let_def temps_def enths_def i_def linearInterpolate_value)
  qed
qed

text \<open>
  Every array read of \<open>calculateEnthalpy\<close> is inside its array: the curves are not empty,
  the two arrays of a curve are equally long, the loop's index is a valid one, and the
  index after it is read only when it exists.
\<close>

lemma reads_in_range:
  assumes sel: "map_of steamTableData (findClosestPressure p) = Some data"
    and lo: "temperatures data ! 0 \<le> t"
    and hi: "t \<le> temperatures data ! (length (temperatures data) - 1)"
  shows "0 < length (temperatures data) \<and>
         length (enthalpies data) = length (temperatures data) \<and>
         bracket_loop (temperatures data) t 0 < length (temperatures data) \<and>
         (temperatures data ! bracket_loop (temperatures data) t 0 = t \<or>
          bracket_loop (temperatures data) t 0 + 1 < length (temperatures data))"
proof -
  have "curve_ok data" using sel by (rule table_curve_ok)
  then have "0 < length (temperatures data)"
    and "length (enthalpies data) = length (temperatures data)"
    by (simp_all add: curve_ok_def)
  moreover have "bracket_loop (temperatures data) t 0 < length (temperatures data)"
    using in_range_cases [OF sel lo hi] by simp
  moreover have "temperatures data ! bracket_loop (temperatures data) t 0 = t \<or>
          bracket_loop (temperatures data) t 0 + 1 < length (temperatures data)"
    using in_range_cases [OF sel lo hi]
    by (cases "temperatures data ! bracket_loop (temperatures data) t 0 = t") simp_all
  ultimately show ?thesis by blast
qed

lemma findClosestPressure_at_level:
  "findClosestPressure 10 = 10" "findClosestPressure 20 = 20" "findClosestPressure 30 = 30"
  "findClosestPressure 50 = 50" "findClosestPressure 90 = 90"
  by (simp_all add: findClosestPressure_def availablePressures_eq)

lemma level_selects_itself:
  assumes "(P, data) \<in> set steamTableData"
  shows "findClosestPressure P = P \<and> map_of steamTableData (findClosestPressure P) = Some data"
proof -
  have d: "distinct (map fst steamTableData)"
    by (simp add: steamTableData_def)
  have m: "map_of steamTableData P = Some data"
    using d assms by (rule map_of_is_SomeI)
  have "P \<in> set availablePressures"
    using assms by (force simp: availablePressures_def)
  then have "P \<in> {10, 20, 30, 50, 90}"
    by (simp add: availablePressures_eq)
  then have "findClosestPressure P = P"
    using findClosestPressure_at_level by auto
  then show ?thesis using m by simp
qed

lemma calculateEnthalpy_finite: "calculateEnthalpy t p \<noteq> Inl NotFinite"
proof -
  obtain data where sel: "map_of steamTableData (findClosestPressure p) = Some data"
    using selected_curve_exists by blast
  show ?thesis
    by (simp add: calculateEnthalpy_on [OF sel] Let_def linearInterpolate_value)
qed

lemma calculateEnthalpy_no_TypeError: "calculateEnthalpy t p \<noteq> Inl TypeError"
proof -
  obtain data where sel: "map_of steamTableData (findClosestPressure p) = Some data"
    using selected_curve_exists by blast
  show ?thesis
    by (simp add: calculateEnthalpy_on [OF sel] Let_def linearInterpolate_value)
qed

section \<open>The claims about the estimator\<close>

text \<open>
  C1. The table's curve for level 10 is the one the scenario names, and
  \<open>calculateEnthalpy 225 10\<close> is an interpolated estimate with \<open>pressureUsed = 10\<close>, the
  bracket 200 to 250, and the enthalpy 2827.4 + ((225 - 200) / (250 - 200)) * (2957.2 - 2827.4),
  which is 2892.3.
\<close>

theorem C1_concrete_scenario:
  "map_of steamTableData 10 =
     Some \<lparr>temperatures = [200, 250, 300, 350, 400, 450, 500, 550, 600],
           enthalpies = [2827.4, 2957.2, 3051.2, 3157.7, 3264.5, 3373.7, 3486.8, 3603.4, 3723.4]\<rparr> \<and>
   calculateEnthalpy 225 10 =
     Inr \<lparr>enthalpy = 2892.3, pressureUsed = 10, est_method = Interpolated,
          interpolationData = Some \<lparr>T1 = 200, T2 = 250, h1 = 2827.4, h2 = 2957.2\<rparr>\<rparr> \<and>
   (2827.4 + ((225 - 200) / (250 - 200)) * (2957.2 - 2827.4) :: real) = 2892.3"
proof -
  have a: "map_of steamTableData 10 =
     Some \<lparr>temperatures = [200, 250, 300, 350, 400, 450, 500, 550, 600],
           enthalpies = [2827.4, 2957.2, 3051.2, 3157.7, 3264.5, 3373.7, 3486.8, 3603.4, 3723.4]\<rparr>"
    by (simp add: steamTableData_def)
  have f: "findClosestPressure 10 = 10"
    by (simp add: findClosestPressure_def availablePressures_def steamTableData_def)
  have b: "bracket_loop [200, 250, 300, 350, 400, 450, 500, 550, 600] 225 0 = 0"
    by (subst bracket_loop.simps) simp
  have c: "calculateEnthalpy 225 10 =
     Inr \<lparr>enthalpy = 2892.3, pressureUsed = 10, est_method = Interpolated,
          interpolationData = Some \<lparr>T1 = 200, T2 = 250, h1 = 2827.4, h2 = 2957.2\<rparr>\<rparr>"
    by (simp add: calculateEnthalpy_def f a b linearInterpolate_def js_divide_def)
  have d: "(2827.4 + ((225 - 200) / (250 - 200)) * (2957.2 - 2827.4) :: real) = 2892.3"
    by simp
  show ?thesis using a c d by blast
qed

text \<open>
  C3. Let \<open>data\<close> be the curve of the level chosen for \<open>p\<close>. A temperature below its first
  or above its last temperature makes \<open>calculateEnthalpy\<close> fail with the range error, which
  carries the temperature, the chosen level and both bounds; no estimate is returned. The
  submit handler then leaves \<open>dataPoints\<close>, the chart and the statistics panel as they
  were, whatever the page was before. The table is a constant: no function writes it.
\<close>

theorem C3_out_of_range:
  assumes sel: "map_of steamTableData (findClosestPressure p) = Some data"
    and out: "t < temperatures data ! 0 \<or> t > temperatures data ! (length (temperatures data) - 1)"
  shows "calculateEnthalpy t p =
           Inl (OutsideRange t (findClosestPressure p) (temperatures data ! 0)
                  (temperatures data ! (length (temperatures data) - 1))) \<and>
         dataPoints (submit (Some t) (Some p) s) = dataPoints s \<and>
         enthalpyChart (submit (Some t) (Some p) s) = enthalpyChart s \<and>
         dataPoints_text (submit (Some t) (Some p) s) = dataPoints_text s \<and>
         avgEnthalpy_text (submit (Some t) (Some p) s) = avgEnthalpy_text s \<and>
         currentEnthalpy_text (submit (Some t) (Some p) s) = currentEnthalpy_text s"
proof -
  have e: "calculateEnthalpy t p =
           Inl (OutsideRange t (findClosestPressure p) (temperatures data ! 0)
                  (temperatures data ! (length (temperatures data) - 1)))"
    using out calculateEnthalpy_on [OF sel, of t] by (simp add: Let_def)
  show ?thesis
    using e by (simp add: submit_def validateInputs_def showNotification_def Let_def)
qed

theorem C3_out_of_range_witness:
  "map_of steamTableData (findClosestPressure 95) =
      Some \<lparr>temperatures = [303, 350, 400, 450, 500, 550, 600],
            enthalpies = [2724.7, 2957.2, 3138.3, 3279.6, 3410.3, 3486.0, 3612.8]\<rparr> \<and>
   calculateEnthalpy 100 95 = Inl (OutsideRange 100 90 303 600) \<and>
   dataPoints (submit (Some 100) (Some 95) loaded_page) = []"
proof -
  have f: "findClosestPressure 95 = 90"
    by (simp add: findClosestPressure_def availablePressures_def steamTableData_def)
  have sel: "map_of steamTableData (findClosestPressure 95) =
      Some \<lparr>temperatures = [303, 350, 400, 450, 500, 550, 600],
            enthalpies = [2724.7, 2957.2, 3138.3, 3279.6, 3410.3, 3486.0, 3612.8]\<rparr>"
    by (simp add: f steamTableData_def)
  show ?thesis
    using sel C3_out_of_range [OF sel, of 100 loaded_page] by (simp add: f loaded_page_def)
qed

text \<open>
  C8. \<open>linearInterpolate\<close> always returns a finite number. With \<open>x1 = x2\<close> it returns
  \<open>y1\<close>, although the division it guards would be by zero; otherwise the one division it
  evaluates has a non-zero divisor and the result is the interpolation formula.
\<close>

theorem C8_division_guard:
  "(\<exists>y. linearInterpolate x x1 x2 y1 y2 = Some y) \<and>
   (x1 = x2 \<longrightarrow> linearInterpolate x x1 x2 y1 y2 = Some y1 \<and> js_divide (x - x1) (x2 - x1) = None) \<and>
   (x1 \<noteq> x2 \<longrightarrow> js_divide (x - x1) (x2 - x1) = Some ((x - x1) / (x2 - x1)) \<and>
       linearInterpolate x x1 x2 y1 y2 = Some (y1 + ((x - x1) / (x2 - x1)) * (y2 - y1)))"
  by (simp add: linearInterpolate_def js_divide_def)

theorem C8_division_guard_witness:
  "linearInterpolate 7 5 5 1 2 = Some 1 \<and> js_divide (7 - 5) (5 - 5) = None \<and>
   linearInterpolate 225 200 250 10 20 = Some 15"
  using C8_division_guard [of 7 5 5 1 2] C8_division_guard [of 225 200 250 10 20] by simp






text \<open>
  C5. Let \<open>data\<close> be the curve of the level chosen for \<open>p\<close> and let \<open>t\<close> lie between its
  first and last temperature. Then \<open>calculateEnthalpy t p\<close> returns an estimate, which is
  either exact, \<open>t\<close> being a temperature of the curve and the enthalpy the one tabulated
  for it, or interpolated between two neighbouring samples with \<open>T1 \<le> t \<le> T2\<close>.
\<close>

theorem C5_bracket_selection:
  assumes sel: "map_of steamTableData (findClosestPressure p) = Some data"
    and lo: "temperatures data ! 0 \<le> t"
    and hi: "t \<le> temperatures data ! (length (temperatures data) - 1)"
  shows "\<exists>e. calculateEnthalpy t p = Inr e \<and>
     ((est_method e = Exact \<and> interpolationData e = None \<and>
       (\<exists>i<length (temperatures data).
           temperatures data ! i = t \<and> enthalpy e = enthalpies data ! i)) \<or>
      (est_method e = Interpolated \<and>
       (\<exists>i. i + 1 < length (temperatures data) \<and>
          interpolationData e =
            Some \<lparr>T1 = temperatures data ! i, T2 = temperatures data ! (i + 1),
                  h1 = enthalpies data ! i, h2 = enthalpies data ! (i + 1)\<rparr> \<and>
          temperatures data ! i \<le> t \<and> t \<le> temperatures data ! (i + 1) \<and>
          temperatures data ! i \<noteq> t)))"
proof -
  let ?temps = "temperatures data"
  let ?i = "bracket_loop ?temps t 0"
  note c = in_range_cases [OF sel lo hi]
  show ?thesis
  proof (cases "?temps ! ?i = t")
    case True
    then show ?thesis using c by auto
  next
    case False
    then have "?i + 1 < length ?temps" and "t < ?temps ! (?i + 1)" and "?temps ! ?i \<le> t"
      and "calculateEnthalpy t p =
             Inr \<lparr>enthalpy = enthalpies data ! ?i + ((t - ?temps ! ?i) / (?temps ! (?i + 1) - ?temps ! ?i)) * (enthalpies data ! (?i + 1) - enthalpies data ! ?i),
                  pressureUsed = findClosestPressure p, est_method = Interpolated,
                  interpolationData = Some \<lparr>T1 = ?temps ! ?i, T2 = ?temps ! (?i + 1),
                                            h1 = enthalpies data ! ?i, h2 = enthalpies data ! (?i + 1)\<rparr>\<rparr>"
      using c by simp_all
    then show ?thesis using False by force
  qed
qed

theorem C5_bracket_selection_witness:
  "map_of steamTableData (findClosestPressure 10) =
     Some \<lparr>temperatures = [200, 250, 300, 350, 400, 450, 500, 550, 600],
           enthalpies = [2827.4, 2957.2, 3051.2, 3157.7, 3264.5, 3373.7, 3486.8, 3603.4, 3723.4]\<rparr> \<and>
   (200::real) \<le> 225 \<and> (225::real) \<le> 600 \<and>
   (\<exists>e. calculateEnthalpy 225 10 = Inr e \<and> (est_method e = Exact \<or> est_method e = Interpolated))"
proof -
  let ?data = "\<lparr>temperatures = [200, 250, 300, 350, 400, 450, 500, 550, 600],
           enthalpies = [2827.4, 2957.2, 3051.2, 3157.7, 3264.5, 3373.7, 3486.8, 3603.4, 3723.4]\<rparr>"
  have sel: "map_of steamTableData (findClosestPressure 10) = Some ?data"
    by (simp add: findClosestPressure_at_level steamTableData_def)
  have lo: "temperatures ?data ! 0 \<le> 225" by simp
  have hi: "225 \<le> temperatures ?data ! (length (temperatures ?data) - 1)" by simp
  from C5_bracket_selection [OF sel lo hi] obtain e where "calculateEnthalpy 225 10 = Inr e"
    and "est_method e = Exact \<or> est_method e = Interpolated"
    by blast
  then show ?thesis using sel by auto
qed

text \<open>
  C6. For every pressure \<open>p\<close> the chosen level has a curve, and estimating at that curve's
  first temperature is exact with the first enthalpy, estimating at its last temperature
  is exact with the last enthalpy.
\<close>

theorem C6_interpolation_boundary:
  "\<exists>data. map_of steamTableData (findClosestPressure p) = Some data \<and>
     temperatures data \<noteq> [] \<and> length (enthalpies data) = length (temperatures data) \<and>
     calculateEnthalpy (temperatures data ! 0) p =
       Inr \<lparr>enthalpy = enthalpies data ! 0, pressureUsed = findClosestPressure p,
            est_method = Exact, interpolationData = None\<rparr> \<and>
     calculateEnthalpy (temperatures data ! (length (temperatures data) - 1)) p =
       Inr \<lparr>enthalpy = enthalpies data ! (length (enthalpies data) - 1),
            pressureUsed = findClosestPressure p, est_method = Exact, interpolationData = None\<rparr>"
proof -
  obtain data where sel: "map_of steamTableData (findClosestPressure p) = Some data"
    using selected_curve_exists by blast
  let ?temps = "temperatures data"
  let ?n = "length ?temps"
  have ok: "curve_ok data" using sel by (rule table_curve_ok)
  then have ne: "?temps \<noteq> []" and len: "length (enthalpies data) = ?n"
    and srt: "sorted_wrt (<) ?temps"
    by (simp_all add: curve_ok_def)
  have pos: "0 < ?n" using ne by simp
  have mono: "?temps ! 0 \<le> ?temps ! (?n - 1)"
  proof (cases "?n - 1 = 0")
    case True then show ?thesis by simp
  next
    case False
    then have "0 < ?n - 1" by simp
    then show ?thesis using srt pos by (simp add: sorted_wrt_nth_less less_imp_le)
  qed
  have first: "bracket_loop ?temps (?temps ! 0) 0 = 0"
  proof (rule bracket_loop_unique [OF srt])
    show "0 + 1 < ?n \<longrightarrow> ?temps ! 0 < ?temps ! (0 + 1)"
      using srt by (simp add: sorted_wrt_nth_less)
  qed (use pos in simp_all)
  have lst: "bracket_loop ?temps (?temps ! (?n - 1)) 0 = ?n - 1"
  proof (rule bracket_loop_unique [OF srt])
    show "?n - 1 + 1 < ?n \<longrightarrow> ?temps ! (?n - 1) < ?temps ! (?n - 1 + 1)"
      using pos by simp
  qed (use pos in simp_all)
  have a: "calculateEnthalpy (?temps ! 0) p =
       Inr \<lparr>enthalpy = enthalpies data ! 0, pressureUsed = findClosestPressure p,
            est_method = Exact, interpolationData = None\<rparr>"
    using in_range_cases [OF sel order_refl mono] first by simp
  have b: "calculateEnthalpy (?temps ! (?n - 1)) p =
       Inr \<lparr>enthalpy = enthalpies data ! (length (enthalpies data) - 1),
            pressureUsed = findClosestPressure p, est_method = Exact, interpolationData = None\<rparr>"
    using in_range_cases [OF sel mono order_refl] lst len by simp
  show ?thesis using sel ne len a b by blast
qed

text \<open>
  C7. Over exact arithmetic: for two neighbouring samples \<open>i\<close> and \<open>i + 1\<close> of the chosen
  curve and \<open>u\<close> between 0 and 1, the estimate at \<open>T1 + (T2 - T1) * u\<close> has the enthalpy
  \<open>h1 + u * (h2 - h1)\<close>.
\<close>

theorem C7_linearity:
  assumes sel: "map_of steamTableData (findClosestPressure p) = Some data"
    and i: "i + 1 < length (temperatures data)"
    and u0: "0 \<le> u" and u1: "u \<le> 1"
  shows "\<exists>e. calculateEnthalpy
                (temperatures data ! i + (temperatures data ! (i + 1) - temperatures data ! i) * u) p
              = Inr e \<and>
             enthalpy e = enthalpies data ! i + u * (enthalpies data ! (i + 1) - enthalpies data ! i)"
proof -
  let ?temps = "temperatures data"
  let ?enths = "enthalpies data"
  let ?n = "length ?temps"
  let ?a = "?temps ! i"
  let ?b = "?temps ! (i + 1)"
  let ?q = "?a + (?b - ?a) * u"
  have ok: "curve_ok data" using sel by (rule table_curve_ok)
  then have srt: "sorted_wrt (<) ?temps"
    by (simp add: curve_ok_def)
  have ab: "?a < ?b" using srt i by (simp add: sorted_wrt_nth_less)
  have qa: "?a \<le> ?q" using ab u0 by simp
  have qb: "?q \<le> ?b"
  proof -
    have "(?b - ?a) * u \<le> (?b - ?a) * 1"
      using ab u1 by (intro mult_left_mono) simp_all
    then show ?thesis by simp
  qed
  have lo: "?temps ! 0 \<le> ?a"
  proof (cases "i = 0")
    case True then show ?thesis by simp
  next
    case False
    then show ?thesis using srt i by (simp add: sorted_wrt_nth_less less_imp_le)
  qed
  have hi: "?b \<le> ?temps ! (?n - 1)"
  proof (cases "i + 1 = ?n - 1")
    case True then show ?thesis by simp
  next
    case False
    then have "i + 1 < ?n - 1" using i by simp
    then show ?thesis using srt i by (simp add: sorted_wrt_nth_less less_imp_le)
  qed
  have lo': "?temps ! 0 \<le> ?q" using lo qa by simp
  have hi': "?q \<le> ?temps ! (?n - 1)" using hi qb by simp
  note c = in_range_cases [OF sel lo' hi']
  show ?thesis
  proof (cases "u = 1")
    case True
    then have q: "?q = ?b" by simp
    have "bracket_loop ?temps ?b 0 = i + 1"
    proof (rule bracket_loop_unique [OF srt])
      show "i + 1 + 1 < ?n \<longrightarrow> ?b < ?temps ! (i + 1 + 1)"
        using srt by (simp add: sorted_wrt_nth_less)
    qed (use i in simp_all)
    then show ?thesis using c q True by simp
  next
    case False
    then have "u < 1" using u1 by simp
    then have "(?b - ?a) * u < (?b - ?a) * 1"
      using ab by (intro mult_strict_left_mono) simp_all
    then have lt: "?q < ?b" by simp
    have bl: "bracket_loop ?temps ?q 0 = i"
    proof (rule bracket_loop_unique [OF srt])
      show "i + 1 < ?n \<longrightarrow> ?q < ?temps ! (i + 1)" using lt by simp
    qed (use i qa in simp_all)
    show ?thesis
    proof (cases "u = 0")
      case True
      then show ?thesis using c bl by simp
    next
      case False
      then have "?q \<noteq> ?a" using ab by simp
      moreover have "(?q - ?a) / (?b - ?a) = u" using ab by simp
      ultimately show ?thesis using c bl by simp
    qed
  qed
qed

theorem C7_linearity_witness:
  "map_of steamTableData (findClosestPressure 10) =
     Some \<lparr>temperatures = [200, 250, 300, 350, 400, 450, 500, 550, 600],
           enthalpies = [2827.4, 2957.2, 3051.2, 3157.7, 3264.5, 3373.7, 3486.8, 3603.4, 3723.4]\<rparr> \<and>
   (\<exists>e. calculateEnthalpy (200 + (250 - 200) * (1 / 2)) 10 = Inr e \<and>
        enthalpy e = 2827.4 + (1 / 2) * (2957.2 - 2827.4))"
proof -
  let ?data = "\<lparr>temperatures = [200, 250, 300, 350, 400, 450, 500, 550, 600],
           enthalpies = [2827.4, 2957.2, 3051.2, 3157.7, 3264.5, 3373.7, 3486.8, 3603.4, 3723.4]\<rparr>"
  have sel: "map_of steamTableData (findClosestPressure 10) = Some ?data"
    by (simp add: findClosestPressure_at_level steamTableData_def)
  have i: "0 + 1 < length (temperatures ?data)" by simp
  have u0: "(0::real) \<le> 1 / 2" and u1: "(1 / 2 :: real) \<le> 1" by simp_all
  from C7_linearity [OF sel i u0 u1] sel show ?thesis by simp
qed

section \<open>The history\<close>

lemma window_step:
  assumes "length h \<le> m"
  shows "(if m < length (h @ [x]) then tl (h @ [x]) else h @ [x]) =
         drop (length (h @ [x]) - m) (h @ [x])"
proof (cases "m < length (h @ [x])")
  case True
  then have one: "length (h @ [x]) - m = Suc 0" using assms by simp
  have "drop (Suc 0) (h @ [x]) = tl (h @ [x])"
    by (simp only: drop_Suc drop_0)
  then show ?thesis using True one by simp
next
  case False
  then show ?thesis by simp
qed

lemma window_snoc:
  assumes "length ys = n"
  shows "(if m < length (drop (n - m) ys @ [x]) then tl (drop (n - m) ys @ [x])
          else drop (n - m) ys @ [x]) = drop (Suc n - m) (ys @ [x])"
proof -
  let ?h = "drop (n - m) ys"
  have len: "length ?h \<le> m" using assms by simp
  have app: "?h @ [x] = drop (n - m) (ys @ [x])" using assms by simp
  have "(if m < length (?h @ [x]) then tl (?h @ [x]) else ?h @ [x]) =
        drop (length (?h @ [x]) - m) (?h @ [x])"
    using len by (rule window_step)
  also have "\<dots> = drop (length (?h @ [x]) - m) (drop (n - m) (ys @ [x]))"
    by (simp only: app)
  also have "\<dots> = drop (length (?h @ [x]) - m + (n - m)) (ys @ [x])"
    by (simp only: drop_drop)
  also have "length (?h @ [x]) - m + (n - m) = Suc n - m"
    using assms by (cases "n < m") simp_all
  finally show ?thesis .
qed

lemma updateChart_arrays:
  "enthalpyData (updateChart temp pressure timestamp s) =
     (if maxDataPoints < length (enthalpyData s @ [calculateEnthalpy_air temp])
      then tl (enthalpyData s @ [calculateEnthalpy_air temp])
      else enthalpyData s @ [calculateEnthalpy_air temp])"
  "temperatureDataPoints (updateChart temp pressure timestamp s) =
     (if maxDataPoints < length (enthalpyData s @ [calculateEnthalpy_air temp])
      then tl (temperatureDataPoints s @ [temp])
      else temperatureDataPoints s @ [temp])"
  "pressureDataPoints (updateChart temp pressure timestamp s) =
     (if maxDataPoints < length (enthalpyData s @ [calculateEnthalpy_air temp])
      then tl (pressureDataPoints s @ [pressure])
      else pressureDataPoints s @ [pressure])"
  "timeLabels (updateChart temp pressure timestamp s) =
     (if maxDataPoints < length (enthalpyData s @ [calculateEnthalpy_air temp])
      then tl (timeLabels s @ [timestamp])
      else timeLabels s @ [timestamp])"
  by (simp_all add: updateChart_def updateStats_air_def Let_def)

lemma updateChart_all_snoc:
  "updateChart_all (xs @ [(temp, pressure, timestamp)]) s =
     updateChart temp pressure timestamp (updateChart_all xs s)"
  by (induction xs s rule: updateChart_all.induct) simp_all

lemma air_window:
  assumes "enthalpyData s = []" and "temperatureDataPoints s = []"
    and "pressureDataPoints s = []" and "timeLabels s = []"
  shows "enthalpyData (updateChart_all xs s) =
           drop (length xs - maxDataPoints) (map (calculateEnthalpy_air \<circ> fst) xs) \<and>
         temperatureDataPoints (updateChart_all xs s) =
           drop (length xs - maxDataPoints) (map fst xs) \<and>
         pressureDataPoints (updateChart_all xs s) =
           drop (length xs - maxDataPoints) (map (fst \<circ> snd) xs) \<and>
         timeLabels (updateChart_all xs s) =
           drop (length xs - maxDataPoints) (map (snd \<circ> snd) xs)"
proof (induction xs rule: rev_induct)
  case Nil
  show ?case using assms by simp
next
  case (snoc x xs)
  obtain temp pressure timestamp where x: "x = (temp, pressure, timestamp)"
    by (cases x) auto
  let ?s = "updateChart_all xs s"
  let ?n = "length xs"
  let ?m = maxDataPoints
  let ?E = "map (calculateEnthalpy_air \<circ> fst) xs"
  let ?T = "map fst xs"
  let ?P = "map (fst \<circ> snd) xs"
  let ?L = "map (snd \<circ> snd) xs"
  have e: "enthalpyData ?s = drop (?n - ?m) ?E" and t: "temperatureDataPoints ?s = drop (?n - ?m) ?T"
    and p: "pressureDataPoints ?s = drop (?n - ?m) ?P" and l: "timeLabels ?s = drop (?n - ?m) ?L"
    using snoc.IH by blast+
  have cond: "length (drop (?n - ?m) ?E @ [calculateEnthalpy_air temp]) = length (drop (?n - ?m) ?T @ [temp])"
    "length (drop (?n - ?m) ?E @ [calculateEnthalpy_air temp]) = length (drop (?n - ?m) ?P @ [pressure])"
    "length (drop (?n - ?m) ?E @ [calculateEnthalpy_air temp]) = length (drop (?n - ?m) ?L @ [timestamp])"
    by simp_all
  have e': "enthalpyData (updateChart temp pressure timestamp ?s) = drop (Suc ?n - ?m) (?E @ [calculateEnthalpy_air temp])"
    unfolding updateChart_arrays e by (rule window_snoc) simp
  have t': "temperatureDataPoints (updateChart temp pressure timestamp ?s) = drop (Suc ?n - ?m) (?T @ [temp])"
    unfolding updateChart_arrays e t cond(1) by (rule window_snoc) simp
  have p': "pressureDataPoints (updateChart temp pressure timestamp ?s) = drop (Suc ?n - ?m) (?P @ [pressure])"
    unfolding updateChart_arrays e p cond(2) by (rule window_snoc) simp
  have l': "timeLabels (updateChart temp pressure timestamp ?s) = drop (Suc ?n - ?m) (?L @ [timestamp])"
    unfolding updateChart_arrays e l cond(3) by (rule window_snoc) simp
  show ?case
    using e' t' p' l' by (simp add: x updateChart_all_snoc comp_def)
qed

lemma submit_success:
  assumes "calculateEnthalpy t p = Inr r" and "0 \<le> t" and "0 \<le> p"
  shows "dataPoints (submit (Some t) (Some p) s) =
           dataPoints s @ [\<lparr>dp_temperature = t, dp_pressure = p,
                             dp_pressureUsed = pressureUsed r, dp_enthalpy = enthalpy r,
                             dp_method = est_method r\<rparr>]"
  using assms
  by (simp add: submit_def validateInputs_def showNotification_def updateStats_def
      initializeChart_def Let_def)

lemma submit_all_replicate:
  assumes "calculateEnthalpy t p = Inr r" and "0 \<le> t" and "0 \<le> p"
  shows "length (dataPoints (submit_all (replicate n (Some t, Some p)) s)) =
         length (dataPoints s) + n"
proof (induction n arbitrary: s)
  case 0
  show ?case by simp
next
  case (Suc n)
  show ?case
    by (simp add: Suc.IH submit_success [OF assms])
qed

lemma calculateEnthalpy_300_10:
  "calculateEnthalpy 300 10 =
     Inr \<lparr>enthalpy = 3051.2, pressureUsed = 10, est_method = Exact, interpolationData = None\<rparr>"
proof -
  have b: "bracket_loop [200, 250, 300, 350, 400, 450, 500, 550, 600] 300 0 = 2"
    by (simp add: bracket_loop.simps)
  show ?thesis
    by (simp add: calculateEnthalpy_def findClosestPressure_at_level steamTableData_def b)
qed

text \<open>
  C2, as the code has it. In the air front end, starting from empty arrays, any sequence
  of recordings leaves in each of the four arrays the last \<open>maxDataPoints\<close> values in the
  order they were recorded; after \<open>maxDataPoints + 5\<close> recordings the arrays hold
  \<open>maxDataPoints\<close> values, the first five being gone. In the steam front end a successful
  submission appends its entry to \<open>dataPoints\<close> and removes none, whatever the length.
\<close>

theorem C2_history_window:
  assumes "enthalpyData a = []" and "temperatureDataPoints a = []"
    and "pressureDataPoints a = []" and "timeLabels a = []"
  shows "enthalpyData (updateChart_all xs a) =
           drop (length xs - maxDataPoints) (map (calculateEnthalpy_air \<circ> fst) xs) \<and>
         temperatureDataPoints (updateChart_all xs a) =
           drop (length xs - maxDataPoints) (map fst xs) \<and>
         pressureDataPoints (updateChart_all xs a) =
           drop (length xs - maxDataPoints) (map (fst \<circ> snd) xs) \<and>
         timeLabels (updateChart_all xs a) =
           drop (length xs - maxDataPoints) (map (snd \<circ> snd) xs) \<and>
         length (enthalpyData (updateChart_all xs a)) = min (length xs) maxDataPoints \<and>
         (length xs = maxDataPoints + 5 \<longrightarrow>
            length (enthalpyData (updateChart_all xs a)) = maxDataPoints \<and>
            enthalpyData (updateChart_all xs a) = drop 5 (map (calculateEnthalpy_air \<circ> fst) xs)) \<and>
         (0 \<le> t \<and> 0 \<le> p \<and> calculateEnthalpy t p = Inr r \<longrightarrow>
            dataPoints (submit (Some t) (Some p) s) =
              dataPoints s @ [\<lparr>dp_temperature = t, dp_pressure = p,
                                dp_pressureUsed = pressureUsed r, dp_enthalpy = enthalpy r,
                                dp_method = est_method r\<rparr>])"
proof -
  note w = air_window [OF assms, of xs]
  have e: "enthalpyData (updateChart_all xs a) =
           drop (length xs - maxDataPoints) (map (calculateEnthalpy_air \<circ> fst) xs)"
    using w by blast
  have len: "length (enthalpyData (updateChart_all xs a)) = min (length xs) maxDataPoints"
    unfolding e by simp
  have five: "length xs = maxDataPoints + 5 \<longrightarrow>
            length (enthalpyData (updateChart_all xs a)) = maxDataPoints \<and>
            enthalpyData (updateChart_all xs a) = drop 5 (map (calculateEnthalpy_air \<circ> fst) xs)"
    unfolding e by simp
  have steam: "0 \<le> t \<and> 0 \<le> p \<and> calculateEnthalpy t p = Inr r \<longrightarrow>
            dataPoints (submit (Some t) (Some p) s) =
              dataPoints s @ [\<lparr>dp_temperature = t, dp_pressure = p,
                                dp_pressureUsed = pressureUsed r, dp_enthalpy = enthalpy r,
                                dp_method = est_method r\<rparr>]"
    using submit_success by blast
  show ?thesis using w len five steam by blast
qed

theorem C2_history_window_witness:
  "enthalpyData loaded_air_page = [] \<and> temperatureDataPoints loaded_air_page = [] \<and>
   pressureDataPoints loaded_air_page = [] \<and> timeLabels loaded_air_page = [] \<and>
   length (replicate 55 (300 :: real, 101325 :: real, ''noon'')) = maxDataPoints + 5 \<and>
   length (enthalpyData (updateChart_all (replicate 55 (300, 101325, ''noon'')) loaded_air_page))
     = maxDataPoints \<and>
   (0 :: real) \<le> 300 \<and> (0 :: real) \<le> 10 \<and>
   calculateEnthalpy 300 10 =
     Inr \<lparr>enthalpy = 3051.2, pressureUsed = 10, est_method = Exact, interpolationData = None\<rparr> \<and>
   dataPoints (submit (Some 300) (Some 10) loaded_page) =
     [\<lparr>dp_temperature = 300, dp_pressure = 10, dp_pressureUsed = 10, dp_enthalpy = 3051.2,
       dp_method = Exact\<rparr>]"
proof -
  have a: "enthalpyData loaded_air_page = []" "temperatureDataPoints loaded_air_page = []"
    "pressureDataPoints loaded_air_page = []" "timeLabels loaded_air_page = []"
    by (simp_all add: loaded_air_page_def)
  have n: "length (replicate 55 (300 :: real, 101325 :: real, ''noon'')) = maxDataPoints + 5"
    by (simp add: maxDataPoints_def)
  note c = C2_history_window [OF a, of "replicate 55 (300, 101325, ''noon'')" 300 10
      "\<lparr>enthalpy = 3051.2, pressureUsed = 10, est_method = Exact, interpolationData = None\<rparr>"
      loaded_page]
  have l: "length (enthalpyData (updateChart_all (replicate 55 (300, 101325, ''noon'')) loaded_air_page))
     = maxDataPoints"
    using c n by blast
  have d: "dataPoints (submit (Some 300) (Some 10) loaded_page) =
     dataPoints loaded_page @ [\<lparr>dp_temperature = 300, dp_pressure = 10,
        dp_pressureUsed = pressureUsed \<lparr>enthalpy = 3051.2, pressureUsed = 10, est_method = Exact, interpolationData = None\<rparr>,
        dp_enthalpy = enthalpy \<lparr>enthalpy = 3051.2, pressureUsed = 10, est_method = Exact, interpolationData = None\<rparr>,
        dp_method = est_method \<lparr>enthalpy = 3051.2, pressureUsed = 10, est_method = Exact, interpolationData = None\<rparr>\<rparr>]"
    using c calculateEnthalpy_300_10 by simp
  have d': "dataPoints (submit (Some 300) (Some 10) loaded_page) =
     [\<lparr>dp_temperature = 300, dp_pressure = 10, dp_pressureUsed = 10, dp_enthalpy = 3051.2,
       dp_method = Exact\<rparr>]"
    using d by (simp add: loaded_page_def)
  show ?thesis using a n l d' calculateEnthalpy_300_10 by simp
qed

text \<open>
  Against C2 read for both front ends: the steam front end has no bound on its history.
  From the loaded page, fifty-five
  successful submissions leave fifty-five entries in \<open>dataPoints\<close>, not fifty.
\<close>

theorem C2_steam_history_unbounded:
  "dataPoints loaded_page = [] \<and>
   calculateEnthalpy 300 10 =
     Inr \<lparr>enthalpy = 3051.2, pressureUsed = 10, est_method = Exact, interpolationData = None\<rparr> \<and>
   length (dataPoints (submit_all (replicate (maxDataPoints + 5) (Some 300, Some 10)) loaded_page))
     = maxDataPoints + 5 \<and>
   length (dataPoints (submit_all (replicate (maxDataPoints + 5) (Some 300, Some 10)) loaded_page))
     \<noteq> maxDataPoints"
proof -
  have e: "dataPoints loaded_page = []" by (simp add: loaded_page_def)
  have "length (dataPoints (submit_all (replicate (maxDataPoints + 5) (Some 300, Some 10)) loaded_page))
     = length (dataPoints loaded_page) + (maxDataPoints + 5)"
    by (rule submit_all_replicate [OF calculateEnthalpy_300_10]) simp_all
  then show ?thesis using e calculateEnthalpy_300_10 by simp
qed

text \<open>
  The air front end's \<open>updateStats\<close> has no guard for an empty history: called right after
  a reset it would show the count 0 and the text NaN. The script never calls it there.
\<close>

lemma updateStats_air_after_reset:
  "dataPointsEl (updateStats_air (resetForm_air a)) = 0 \<and>
   avgEnthalpyEl (updateStats_air (resetForm_air a)) = NaN_text"
  by (simp add: updateStats_air_def resetForm_air_def showNotification_air_def js_divide_def)

text \<open>
  C9. In both front ends, after \<open>resetForm\<close> the history is empty and the statistics
  panel shows the count 0 and the dash for the average; resetting a second time changes
  nothing. In the steam front end recomputing the statistics changes nothing either.
\<close>

theorem C9_reset_idempotent:
  "dataPoints (resetForm s) = [] \<and>
   dataPoints_text (resetForm s) = 0 \<and>
   avgEnthalpy_text (resetForm s) = Dash \<and>
   updateStats (resetForm s) = resetForm s \<and>
   resetForm (resetForm s) = resetForm s \<and>
   enthalpyData (resetForm_air a) = [] \<and>
   dataPointsEl (resetForm_air a) = 0 \<and>
   avgEnthalpyEl (resetForm_air a) = Dash \<and>
   resetForm_air (resetForm_air a) = resetForm_air a"
  by (simp add: resetForm_def updateStats_def initializeChart_def showNotification_def
      resetForm_air_def showNotification_air_def Let_def)

text \<open>
  C10. In the air front end the enthalpy is \<open>(1003.5 + 0.1 * T - 0.00002 * T * T) * T\<close>.
  Two valid submissions with the same temperature and time label leave pages that differ
  in \<open>pressureDataPoints\<close> only: the recorded series and the message shown are the same.
\<close>

theorem C10_pressure_independence:
  assumes T: "0 < T" and p1: "0 < p1" and p2: "0 < p2"
  shows "calculateEnthalpy_air T = (1003.5 + 0.1 * T - 0.00002 * T * T) * T \<and>
         submit_air (Some T) (Some p2) ts s =
           (submit_air (Some T) (Some p1) ts s)
             \<lparr>pressureDataPoints := pressureDataPoints (submit_air (Some T) (Some p2) ts s)\<rparr> \<and>
         enthalpyData (submit_air (Some T) (Some p1) ts s) =
           enthalpyData (submit_air (Some T) (Some p2) ts s) \<and>
         enthalpyData (updateChart T p1 ts s) = enthalpyData (updateChart T p2 ts s) \<and>
         notification (submit_air (Some T) (Some p1) ts s) =
           Some (EnthalpyShown ((1003.5 + 0.1 * T - 0.00002 * T * T) * T), Success)"
proof -
  have f: "calculateEnthalpy_air T = (1003.5 + 0.1 * T - 0.00002 * T * T) * T"
    by (simp add: calculateEnthalpy_air_def cpDryAir_def Let_def)
  have e: "enthalpyData (updateChart T p1 ts s') = enthalpyData (updateChart T p2 ts s')" for s'
    by (simp add: updateChart_arrays)
  have v: "validateInput (Some T)" "validateInput (Some p1)" "validateInput (Some p2)"
    using T p1 p2 by (simp_all add: validateInput_def)
  have s1: "submit_air (Some T) (Some q) ts s =
      showNotification_air (EnthalpyShown (calculateEnthalpy_air T)) Success
        (updateChart T q ts (s\<lparr>tempError := False, pressError := False\<rparr>))"
    if "validateInput (Some q)" for q
    using that v(1) by (simp add: submit_air_def Let_def)
  have r: "submit_air (Some T) (Some p2) ts s =
           (submit_air (Some T) (Some p1) ts s)
             \<lparr>pressureDataPoints := pressureDataPoints (submit_air (Some T) (Some p2) ts s)\<rparr>"
    unfolding s1 [OF v(2)] s1 [OF v(3)]
    by (simp add: updateChart_def updateStats_air_def showNotification_air_def Let_def)
  have d: "enthalpyData (submit_air (Some T) (Some p1) ts s) =
           enthalpyData (submit_air (Some T) (Some p2) ts s)"
    unfolding s1 [OF v(2)] s1 [OF v(3)]
    by (simp add: showNotification_air_def e)
  have n: "notification (submit_air (Some T) (Some p1) ts s) =
           Some (EnthalpyShown ((1003.5 + 0.1 * T - 0.00002 * T * T) * T), Success)"
    unfolding s1 [OF v(2)] by (simp add: showNotification_air_def f)
  show ?thesis using f r d e [of s] n by blast
qed

theorem C10_pressure_independence_witness:
  "(0 :: real) < 300 \<and> (0 :: real) < 101325 \<and> (0 :: real) < 200000 \<and>
   calculateEnthalpy_air 300 = 309510 \<and>
   enthalpyData (submit_air (Some 300) (Some 101325) ''noon'' loaded_air_page) =
     enthalpyData (submit_air (Some 300) (Some 200000) ''noon'' loaded_air_page)"
proof -
  have h: "(0 :: real) < 300" "(0 :: real) < 101325" "(0 :: real) < 200000"
    by simp_all
  note c = C10_pressure_independence [OF h, of "''noon''" loaded_air_page]
  have "calculateEnthalpy_air 300 = 309510"
    using c by simp
  then show ?thesis using c h by blast
qed

end
